theory Spec2Isabelle
  imports Complex_Main
begin

section \<open>JavaScript values and effects\<close>

text \<open>
  A JavaScript call either returns a value or throws. The two outcomes are kept apart,
  so that "reported as a result" and "thrown" are different values of the model.
\<close>

datatype js_error = TypeError | FetchError

datatype 'a outcome = Returned 'a | Thrown js_error

text \<open>
  Reading \<open>obj[key]\<close> on an object parsed from JSON or written as a literal: the
  key is an own property, or a name inherited from \<open>Object.prototype\<close> (the value is
  then a function or the prototype itself, an object without the fields of the
  configuration), or it is not there and the read gives \<open>undefined\<close>.
\<close>

definition object_prototype_keys :: "string list" where
  "object_prototype_keys =
     [''constructor'', ''__defineGetter__'', ''__defineSetter__'', ''hasOwnProperty'',
      ''__lookupGetter__'', ''__lookupSetter__'', ''isPrototypeOf'',
      ''propertyIsEnumerable'', ''toString'', ''valueOf'', ''__proto__'',
      ''toLocaleString'']"

datatype 'a js_prop = Own 'a | Inherited | Missing

definition js_get :: "(string \<rightharpoonup> 'a) \<Rightarrow> string \<Rightarrow> 'a js_prop" where
  "js_get obj k =
     (case obj k of
        Some v \<Rightarrow> Own v
      | None \<Rightarrow> if k \<in> set object_prototype_keys then Inherited else Missing)"

text \<open>
  Writing \<open>obj[key] = value\<close> with a string value on an object literal: every key
  becomes an own property, except \<open>__proto__\<close>, whose inherited setter ignores a value
  that is neither an object nor null.
\<close>

definition js_set :: "(string \<rightharpoonup> string) \<Rightarrow> string \<Rightarrow> string \<Rightarrow> (string \<rightharpoonup> string)" where
  "js_set obj k v = (if k = ''__proto__'' then obj else obj(k \<mapsto> v))"

section \<open>The webhook handler (index.js, the crisis endpoint)\<close>

text \<open>
  The handler runs in a state that records what it did to its collaborators: the
  responses sent through \<open>res.status(c).json(b)\<close> and the lines written with
  \<open>console.error\<close>. A computation takes the state and gives back the state together
  with a value or the thrown error, so a response that was sent stays sent when a later
  statement throws.
\<close>

datatype json_body =
    OkTrue
  | ReadyMessage string string
  | ErrorBody string

record 'e io_state =
  sent :: "(nat \<times> json_body) list"
  console :: "(string \<times> 'e) list"

type_synonym ('e, 'a) prog = "'e io_state \<Rightarrow> ('e + 'a) \<times> 'e io_state"

definition await :: "'e + 'a \<Rightarrow> ('e, 'a) prog" where
  "await r = (\<lambda>s. (r, s))"

definition then_prog :: "('e, 'a) prog \<Rightarrow> ('a \<Rightarrow> ('e, 'b) prog) \<Rightarrow> ('e, 'b) prog" where
  "then_prog m f = (\<lambda>s. case m s of (Inl e, s') \<Rightarrow> (Inl e, s') | (Inr x, s') \<Rightarrow> f x s')"

definition try_catch :: "('e, 'a) prog \<Rightarrow> ('e \<Rightarrow> ('e, 'a) prog) \<Rightarrow> ('e, 'a) prog" where
  "try_catch m h = (\<lambda>s. case m s of (Inl e, s') \<Rightarrow> h e s' | (Inr x, s') \<Rightarrow> (Inr x, s'))"

text \<open>
  The response object is the caller's. \<open>res\<close> says what a call
  \<open>res.status(c).json(b)\<close> does, given the responses already sent: it sends the
  response (\<open>None\<close>) or it throws (\<open>Some\<close> of the error) and has sent nothing.
\<close>

type_synonym 'e response_object = "(nat \<times> json_body) list \<Rightarrow> nat \<Rightarrow> json_body \<Rightarrow> 'e option"

definition res_status_json :: "'e response_object \<Rightarrow> nat \<Rightarrow> json_body \<Rightarrow> ('e, unit) prog" where
  "res_status_json res code b =
     (\<lambda>s. case res (sent s) code b of
            None \<Rightarrow> (Inr (), s\<lparr>sent := sent s @ [(code, b)]\<rparr>)
          | Some err \<Rightarrow> (Inl err, s))"

definition console_error :: "string \<Rightarrow> 'e \<Rightarrow> ('e, unit) prog" where
  "console_error msg e = (\<lambda>s. (Inr (), s\<lparr>console := console s @ [(msg, e)]\<rparr>))"

record 'b request =
  req_method :: string
  req_body :: 'b

text \<open>
  The exported function of index.js and of the crisis endpoint differ in their three
  strings only. \<open>handleUpdate\<close> is \<open>bot.handleUpdate\<close> awaited on the request body: it
  is given no response object, so all the handler sees of it is whether it threw.
  \<open>now\<close> is \<open>new Date().toISOString()\<close>. The reply of the catch block is not inside
  a \<open>try\<close> of its own.
\<close>

definition webhook ::
  "string \<Rightarrow> string \<Rightarrow> string \<Rightarrow> 'e response_object \<Rightarrow> ('b \<Rightarrow> 'e + unit) \<Rightarrow> string \<Rightarrow>
   'b request \<Rightarrow> ('e, unit) prog" where
  "webhook ready_text log_text error_text res handleUpdate now req =
     try_catch
       (if req_method req = ''POST''
        then then_prog (await (handleUpdate (req_body req)))
               (\<lambda>_. res_status_json res 200 OkTrue)
        else res_status_json res 200 (ReadyMessage ready_text now))
       (\<lambda>error. then_prog (console_error log_text error)
               (\<lambda>_. res_status_json res 500 (ErrorBody error_text)))"

definition index_handler ::
  "'e response_object \<Rightarrow> ('b \<Rightarrow> 'e + unit) \<Rightarrow> string \<Rightarrow> 'b request \<Rightarrow> ('e, unit) prog" where
  "index_handler = webhook ''MerchantGuard Bot Ready!'' ''Bot error:'' ''Bot error''"

definition crisis_handler ::
  "'e response_object \<Rightarrow> ('b \<Rightarrow> 'e + unit) \<Rightarrow> string \<Rightarrow> 'b request \<Rightarrow> ('e, unit) prog" where
  "crisis_handler =
     webhook ''Crisis Fast-Track Bot API Ready!'' ''Crisis bot error:'' ''Crisis bot error''"

text \<open>
  The error the \<open>try\<close> block ends with, if any: the one the update handling threw, or
  the one the 200 reply threw.
\<close>

definition try_error ::
  "string \<Rightarrow> 'e response_object \<Rightarrow> ('b \<Rightarrow> 'e + unit) \<Rightarrow> string \<Rightarrow> 'b request \<Rightarrow>
   (nat \<times> json_body) list \<Rightarrow> 'e option" where
  "try_error ready_text res handleUpdate now req already =
     (if req_method req = ''POST''
      then (case handleUpdate (req_body req) of
              Inl err \<Rightarrow> Some err
            | Inr _ \<Rightarrow> res already 200 OkTrue)
      else res already 200 (ReadyMessage ready_text now))"

text \<open>Sample collaborators and requests for running the handler.\<close>

definition reliable_res :: "js_error response_object" where
  "reliable_res already code b = None"

definition broken_res :: "js_error response_object" where
  "broken_res already code b = Some TypeError"

definition flaky_res :: "js_error response_object" where
  "flaky_res already code b = (if code = 200 then Some TypeError else None)"

definition ok_update :: "unit \<Rightarrow> js_error + unit" where
  "ok_update update = Inr ()"

definition failing_update :: "unit \<Rightarrow> js_error + unit" where
  "failing_update update = Inl FetchError"

definition post_request :: "unit request" where
  "post_request = \<lparr>req_method = ''POST'', req_body = ()\<rparr>"

definition get_request :: "unit request" where
  "get_request = \<lparr>req_method = ''GET'', req_body = ()\<rparr>"

definition fresh_state :: "js_error io_state" where
  "fresh_state = \<lparr>sent = [], console = []\<rparr>"

section \<open>parsePayload (index.js and the two other bot files)\<close>

text \<open>
  Strings are lists of code units below 256. \<open>String.prototype.trim\<close> strips white
  space and line terminators; in this range these are the seven characters below.
\<close>

definition js_whitespace :: "char \<Rightarrow> bool" where
  "js_whitespace c \<longleftrightarrow>
     c \<in> set [CHR 0x09, CHR 0x0A, CHR 0x0B, CHR 0x0C, CHR 0x0D, CHR 0x20, CHR 0xA0]"

definition trim :: "string \<Rightarrow> string" where
  "trim s = rev (dropWhile js_whitespace (rev (dropWhile js_whitespace s)))"

text \<open>
  \<open>s.split(c)\<close> for a one-character separator: the pieces between the separators,
  empty pieces included; a string without the separator is its only piece.
\<close>

fun split_on :: "char \<Rightarrow> string \<Rightarrow> string list" where
  "split_on c [] = [[]]"
| "split_on c (x # xs) =
     (if x = c then [] # split_on c xs
      else (case split_on c xs of
              [] \<Rightarrow> [[x]]
            | p # ps \<Rightarrow> (x # p) # ps))"

datatype js_input = JUndefined | JNull | JString string

definition falsy :: "js_input \<Rightarrow> bool" where
  "falsy input = (case input of JUndefined \<Rightarrow> True | JNull \<Rightarrow> True | JString s \<Rightarrow> s = [])"

text \<open>
  The body of the loop: \<open>const [key, value] = part.split(':')\<close> takes the first two
  pieces (\<open>value\<close> is \<open>undefined\<close> when there is one piece only), and the entry is
  written when both are truthy, that is, non-empty strings.
\<close>

definition store_part :: "(string \<rightharpoonup> string) \<Rightarrow> string \<Rightarrow> (string \<rightharpoonup> string)" where
  "store_part out part =
     (case split_on CHR '':'' part of
        key # val # _ \<Rightarrow>
          if key \<noteq> [] \<and> val \<noteq> [] then js_set out (trim key) (trim val) else out
      | _ \<Rightarrow> out)"

definition parsePayload :: "js_input \<Rightarrow> (string \<rightharpoonup> string)" where
  "parsePayload input =
     (if falsy input then Map.empty
      else (case input of
              JString s \<Rightarrow> foldl store_part Map.empty (split_on CHR '';'' s)
            | _ \<Rightarrow> Map.empty))"

text \<open>
  What the parts of a payload ask to be stored, in order: one pair of trimmed pieces
  for each part whose first and second piece are non-empty.
\<close>

definition part_entry :: "string \<Rightarrow> (string \<times> string) option" where
  "part_entry part =
     (case split_on CHR '':'' part of
        key # val # _ \<Rightarrow> if key \<noteq> [] \<and> val \<noteq> [] then Some (trim key, trim val) else None
      | _ \<Rightarrow> None)"

definition payload_entries :: "string \<Rightarrow> (string \<times> string) list" where
  "payload_entries s = List.map_filter part_entry (split_on CHR '';'' s)"

section \<open>The GuardScore of the volume handler (index.js)\<close>

text \<open>
  \<open>random\<close> is the value \<open>Math.random()\<close> returned in this call, a number in
  \<open>[0, 1)\<close>. The handler acknowledges the callback and sends one reply that carries
  the score; which of the four volume buttons was pressed is not looked at, although
  the comment on the score reads "Generate instant GuardScore based on selections".
\<close>

definition guardScore :: "real \<Rightarrow> int" where
  "guardScore random = \<lfloor>random * 30\<rfloor> + 60"

datatype bot_effect = AnswerCbQuery | Reply int

definition volume_handler :: "string \<Rightarrow> real \<Rightarrow> bot_effect list" where
  "volume_handler action random = [AnswerCbQuery, Reply (guardScore random)]"

section \<open>config/complianceThresholds.ts\<close>

record vamp_thresholds =
  warn_cb_rate :: real
  breach_cb_rate :: real
  fine_bands_usd :: "nat list"

record pix_thresholds =
  green_max :: real
  watch_min :: real
  red_min :: real
  reserve_bands :: "(string \<times> string) list"

record compliance_thresholds =
  vamp :: vamp_thresholds
  pix :: pix_thresholds

definition thresholds :: compliance_thresholds where
  "thresholds =
     \<lparr>vamp = \<lparr>warn_cb_rate = 65 / 10000, breach_cb_rate = 100 / 10000,
              fine_bands_usd = [5000, 25000, 50000]\<rparr>,
      pix = \<lparr>green_max = 30 / 10000, watch_min = 45 / 10000, red_min = 55 / 10000,
             reserve_bands = [(''green'', ''10%''), (''watch'', ''15%''),
                              (''red'', ''20% + 150 bps'')]\<rparr>\<rparr>"

section \<open>The configuration usage guide: loading and reading the JSON documents\<close>

text \<open>
  The two documents as the guide reads them. \<open>regions\<close> is
  \<open>merchant_thresholds.regions\<close>, \<open>approximate_rates\<close> and \<open>usd_base\<close> are under
  \<open>currency_conversions\<close>, \<open>domestic_only\<close> is under \<open>country_exemptions\<close>. The
  shape of \<open>psp_internal_thresholds\<close> is not shown in the guide and stays a type
  parameter. An \<open>amount\<close> that is absent or null is \<open>None\<close>.
\<close>

record region_entry =
  current_threshold :: real

record rate_entry =
  amount :: "real option"

record 'bands thresholds_doc =
  regions :: "string \<rightharpoonup> region_entry"
  psp_internal_thresholds :: 'bands
  approximate_rates :: "string \<rightharpoonup> rate_entry"
  usd_base :: real

record exemption_entry =
  country_code :: string

record exemptions_doc =
  domestic_only :: "exemption_entry list"

text \<open>
  \<open>Promise.all\<close> over the two fetches: each argument is what
  \<open>fetch(url).then(r => r.json())\<close> settled with. The destructuring binds both
  documents when both arrived and nothing when one was rejected (when both were, the
  error of the first argument stands for whichever came first). Nothing looks into
  the documents.
\<close>

fun load_configs :: "'t outcome \<Rightarrow> 'e outcome \<Rightarrow> ('t \<times> 'e) outcome" where
  "load_configs (Returned t) (Returned e) = Returned (t, e)"
| "load_configs (Thrown err) _ = Thrown err"
| "load_configs (Returned t) (Thrown err) = Thrown err"

definition isDomesticExempt :: "exemptions_doc \<Rightarrow> string \<Rightarrow> bool" where
  "isDomesticExempt exemptions userCountry =
     list_ex (\<lambda>country. country_code country = userCountry) (domestic_only exemptions)"

text \<open>
  \<open>regions[userRegion].current_threshold\<close>: reading a field of \<open>undefined\<close> throws a
  TypeError; an inherited name gives an object without that field, so the read gives
  \<open>undefined\<close> (\<open>None\<close>).
\<close>

definition regionThreshold :: "'bands thresholds_doc \<Rightarrow> string \<Rightarrow> real option outcome" where
  "regionThreshold thresholds_json userRegion =
     (case js_get (regions thresholds_json) userRegion of
        Own r \<Rightarrow> Returned (Some (current_threshold r))
      | Inherited \<Rightarrow> Returned None
      | Missing \<Rightarrow> Thrown TypeError)"

record 'risk calculator_values =
  calc_isDomesticExempt :: bool
  calc_regionThreshold :: "real option"
  calc_pspRisk :: 'risk

text \<open>
  The three statements of the calculator integration, in their order.
  \<open>getPSPRiskLevel\<close> is called by the guide and defined in no source file; it is a
  parameter here.
\<close>

definition calculator_integration ::
  "(real \<Rightarrow> 'bands \<Rightarrow> 'risk) \<Rightarrow> 'bands thresholds_doc \<Rightarrow> exemptions_doc \<Rightarrow>
   string \<Rightarrow> string \<Rightarrow> real \<Rightarrow> 'risk calculator_values outcome" where
  "calculator_integration getPSPRiskLevel thresholds_json exemptions userCountry userRegion
     disputeRatio =
     (let exempt = isDomesticExempt exemptions userCountry in
      case regionThreshold thresholds_json userRegion of
        Thrown err \<Rightarrow> Thrown err
      | Returned threshold \<Rightarrow>
          Returned \<lparr>calc_isDomesticExempt = exempt,
                    calc_regionThreshold = threshold,
                    calc_pspRisk =
                      getPSPRiskLevel disputeRatio (psp_internal_thresholds thresholds_json)\<rparr>)"

text \<open>
  \<open>penalties[userCurrency]?.amount || usd_base\<close>: the optional chaining turns a
  missing entry into \<open>undefined\<close>, and \<open>||\<close> replaces every falsy amount
  (\<open>undefined\<close>, null, 0) by the USD base amount.
\<close>

definition localPenalty :: "'bands thresholds_doc \<Rightarrow> string \<Rightarrow> real" where
  "localPenalty thresholds_json userCurrency =
     (case js_get (approximate_rates thresholds_json) userCurrency of
        Own rate \<Rightarrow>
          (case amount rate of
             Some a \<Rightarrow> if a \<noteq> 0 then a else usd_base thresholds_json
           | None \<Rightarrow> usd_base thresholds_json)
      | _ \<Rightarrow> usd_base thresholds_json)"

text \<open>
  The compliance alert. The two messages start with \<open>CRITICAL:\<close> and \<open>WARNING:\<close>;
  below 0.7 the variable \<open>alert\<close> is not assigned (\<open>None\<close>).
\<close>

datatype alert = CRITICAL | WARNING

definition complianceAlert :: "real \<Rightarrow> alert option" where
  "complianceAlert disputeRatio =
     (if disputeRatio \<ge> 9 / 10 then Some CRITICAL
      else if disputeRatio \<ge> 7 / 10 then Some WARNING
      else None)"

section \<open>The PSP band lookup\<close>

text \<open>
  Modelled from the spec: \<open>lookupPSPBand\<close>, the source's \<open>getPSPRiskLevel\<close>, which the
  usage guide calls on \<open>psp_internal_thresholds\<close> and no source file defines. The
  spec: an ordered list of bands with strictly increasing lower bounds; a linear search
  over the ordered bands returns the highest band whose lower bound is at most the
  observed ratio, or none.
\<close>

record PSPShadowBand =
  lower_bound_fraction :: real
  label :: string

fun lookupPSPBand :: "PSPShadowBand list \<Rightarrow> real \<Rightarrow> PSPShadowBand option" where
  "lookupPSPBand [] ratio = None"
| "lookupPSPBand (b # bs) ratio =
     (if lower_bound_fraction b \<le> ratio
      then (case lookupPSPBand bs ratio of None \<Rightarrow> Some b | Some higher \<Rightarrow> Some higher)
      else None)"

text \<open>
  Modelled from the spec: the invariant of the band list, lower bounds strictly
  increasing, which the spec has \<open>load\<close> check.
\<close>

fun strictly_increasing :: "real list \<Rightarrow> bool" where
  "strictly_increasing [] = True"
| "strictly_increasing [x] = True"
| "strictly_increasing (x # y # ys) = (x < y \<and> strictly_increasing (y # ys))"

definition bounds_strictly_increasing :: "PSPShadowBand list \<Rightarrow> bool" where
  "bounds_strictly_increasing bands = strictly_increasing (map lower_bound_fraction bands)"

text \<open>
  Modelled from the spec: the two bands the spec names as examples of a
  \<open>PSPShadowBand\<close> list, 0.3% with the label "reserves likely" and 0.9% with the label
  "termination likely".
\<close>

definition spec_example_bands :: "PSPShadowBand list" where
  "spec_example_bands =
     [\<lparr>lower_bound_fraction = 3 / 1000, label = ''reserves likely''\<rparr>,
      \<lparr>lower_bound_fraction = 9 / 1000, label = ''termination likely''\<rparr>]"

section \<open>Sample documents\<close>

text \<open>
  Documents in the shape the guide reads, with the figures it mentions: a USD base of 8
  with 7.3 for EUR and 44 for BRL, the four PSP thresholds on the scale of the alert
  code, domestic exemptions for Brazil, Chile and India. The second thresholds document
  has its PSP thresholds in decreasing order and a negative amount.
\<close>

definition sample_thresholds :: "real list thresholds_doc" where
  "sample_thresholds =
     \<lparr>regions = [''US'' \<mapsto> \<lparr>current_threshold = 65 / 10000\<rparr>,
                 ''LAC'' \<mapsto> \<lparr>current_threshold = 65 / 10000\<rparr>],
      psp_internal_thresholds = [3 / 10, 5 / 10, 7 / 10, 9 / 10],
      approximate_rates = [''EUR'' \<mapsto> \<lparr>amount = Some (73 / 10)\<rparr>,
                           ''BRL'' \<mapsto> \<lparr>amount = Some 44\<rparr>],
      usd_base = 8\<rparr>"

definition sample_exemptions :: exemptions_doc where
  "sample_exemptions =
     \<lparr>domestic_only = [\<lparr>country_code = ''BR''\<rparr>, \<lparr>country_code = ''CL''\<rparr>,
                        \<lparr>country_code = ''IN''\<rparr>]\<rparr>"

definition unvalidated_thresholds :: "real list thresholds_doc" where
  "unvalidated_thresholds =
     \<lparr>regions = [''US'' \<mapsto> \<lparr>current_threshold = 65 / 10000\<rparr>],
      psp_internal_thresholds = [9 / 10, 3 / 10],
      approximate_rates = [''EUR'' \<mapsto> \<lparr>amount = Some (- 73 / 10)\<rparr>],
      usd_base = 8\<rparr>"

text \<open>A rate table with an amount of zero and an entry without amount.\<close>

definition falsy_amount_thresholds :: "real list thresholds_doc" where
  "falsy_amount_thresholds =
     \<lparr>regions = Map.empty,
      psp_internal_thresholds = [],
      approximate_rates = [''GBP'' \<mapsto> \<lparr>amount = Some 0\<rparr>,
                           ''INR'' \<mapsto> \<lparr>amount = None\<rparr>],
      usd_base = 8\<rparr>"

text \<open>
  A stand-in for \<open>getPSPRiskLevel\<close> in the sample runs of the calculator: the
  thresholds the ratio has reached.
\<close>

definition thresholds_reached :: "real \<Rightarrow> real list \<Rightarrow> real list" where
  "thresholds_reached ratio bands = filter (\<lambda>b. b \<le> ratio) bands"

section \<open>Properties\<close>

subsection \<open>The PSP band lookup\<close>

lemma strictly_increasing_Cons:
  "strictly_increasing (x # xs) \<longleftrightarrow> (\<forall>y \<in> set xs. x < y) \<and> strictly_increasing xs"
proof (induction xs arbitrary: x)
  case Nil
  then show ?case by simp
next
  case (Cons a xs)
  show ?case
    unfolding strictly_increasing.simps(3) Cons.IH [of a] by auto
qed

lemma bounds_increasing_Cons:
  "bounds_strictly_increasing (b # bs) \<longleftrightarrow>
     (\<forall>h \<in> set bs. lower_bound_fraction b < lower_bound_fraction h) \<and>
     bounds_strictly_increasing bs"
  by (simp add: bounds_strictly_increasing_def strictly_increasing_Cons)

lemma lookupPSPBand_None:
  "bounds_strictly_increasing bands \<Longrightarrow>
   lookupPSPBand bands r = None \<longleftrightarrow> (\<forall>b \<in> set bands. r < lower_bound_fraction b)"
proof (induction bands)
  case Nil
  then show ?case by simp
next
  case (Cons b bs)
  then have above: "\<forall>h \<in> set bs. lower_bound_fraction b < lower_bound_fraction h"
    by (simp add: bounds_increasing_Cons)
  show ?case
  proof (cases "lower_bound_fraction b \<le> r")
    case True
    then show ?thesis by (auto split: option.split)
  next
    case False
    with above show ?thesis by fastforce
  qed
qed

lemma lookupPSPBand_Some_member:
  "lookupPSPBand bands r = Some b \<Longrightarrow> b \<in> set bands \<and> lower_bound_fraction b \<le> r"
  by (induction bands) (auto split: if_splits option.splits)

lemma lookupPSPBand_Some_highest:
  "bounds_strictly_increasing bands \<Longrightarrow> lookupPSPBand bands r = Some b \<Longrightarrow>
   h \<in> set bands \<Longrightarrow> lower_bound_fraction h \<le> r \<Longrightarrow>
   lower_bound_fraction h \<le> lower_bound_fraction b"
proof (induction bands)
  case Nil
  then show ?case by simp
next
  case (Cons a as)
  from Cons.prems(1) have above: "\<forall>x \<in> set as. lower_bound_fraction a < lower_bound_fraction x"
    and inc: "bounds_strictly_increasing as"
    by (simp_all add: bounds_increasing_Cons)
  from Cons.prems(2) have a_ok: "lower_bound_fraction a \<le> r"
    by (simp split: if_splits)
  show ?case
  proof (cases "lookupPSPBand as r")
    case None
    with Cons.prems(2) a_ok have "b = a" by simp
    moreover from None inc have "\<forall>x \<in> set as. r < lower_bound_fraction x"
      by (simp add: lookupPSPBand_None)
    ultimately show ?thesis using Cons.prems(3,4) by auto
  next
    case (Some top)
    with Cons.prems(2) a_ok have b: "b = top" by simp
    from Some have "top \<in> set as" by (simp add: lookupPSPBand_Some_member)
    with above have "lower_bound_fraction a < lower_bound_fraction top" by blast
    moreover have "h \<in> set as \<Longrightarrow> lower_bound_fraction h \<le> lower_bound_fraction top"
      using Cons.IH [OF inc] Some b Cons.prems(4) by simp
    ultimately show ?thesis using Cons.prems(3) b by auto
  qed
qed

lemma bounds_increasing_inj:
  "bounds_strictly_increasing bands \<Longrightarrow> x \<in> set bands \<Longrightarrow> y \<in> set bands \<Longrightarrow>
   lower_bound_fraction x = lower_bound_fraction y \<Longrightarrow> x = y"
  by (induction bands) (auto simp: bounds_increasing_Cons)

lemma spec_example_bands_increasing: "bounds_strictly_increasing spec_example_bands"
  by (simp add: spec_example_bands_def bounds_strictly_increasing_def)

text \<open>
  C2. On bands with strictly increasing lower bounds, \<open>lookupPSPBand\<close> returns a band
  exactly when it is the band of the list with the highest lower bound that is at most
  the ratio, and it returns none exactly when the ratio is below the lower bound of the
  lowest band (or there is no band at all).
\<close>

theorem lookupPSPBand_highest_band:
  assumes "bounds_strictly_increasing bands"
  shows "(lookupPSPBand bands ratio = Some b \<longleftrightarrow>
            b \<in> set bands \<and> lower_bound_fraction b \<le> ratio \<and>
            (\<forall>h \<in> set bands. lower_bound_fraction h \<le> ratio \<longrightarrow>
               lower_bound_fraction h \<le> lower_bound_fraction b)) \<and>
         (lookupPSPBand bands ratio = None \<longleftrightarrow>
            bands = [] \<or> ratio < lower_bound_fraction (hd bands))"
proof -
  let ?best = "b \<in> set bands \<and> lower_bound_fraction b \<le> ratio \<and>
        (\<forall>h \<in> set bands. lower_bound_fraction h \<le> ratio \<longrightarrow>
           lower_bound_fraction h \<le> lower_bound_fraction b)"
  have found: "lookupPSPBand bands ratio = Some b \<longleftrightarrow> ?best"
  proof
    assume res: "lookupPSPBand bands ratio = Some b"
    show ?best
      using lookupPSPBand_Some_member [OF res] lookupPSPBand_Some_highest [OF assms res]
      by blast
  next
    assume best: ?best
    then have "lookupPSPBand bands ratio \<noteq> None"
      using lookupPSPBand_None [OF assms, of ratio] by auto
    then obtain top where top: "lookupPSPBand bands ratio = Some top" by blast
    have mem: "top \<in> set bands" and ok: "lower_bound_fraction top \<le> ratio"
      using lookupPSPBand_Some_member [OF top] by simp_all
    have "lower_bound_fraction b \<le> lower_bound_fraction top"
      using lookupPSPBand_Some_highest [OF assms top] best by blast
    moreover have "lower_bound_fraction top \<le> lower_bound_fraction b"
      using best mem ok by blast
    ultimately have "top = b"
      using best mem bounds_increasing_inj [OF assms, of top b] by simp
    with top show "lookupPSPBand bands ratio = Some b" by simp
  qed
  have none: "lookupPSPBand bands ratio = None \<longleftrightarrow>
      bands = [] \<or> ratio < lower_bound_fraction (hd bands)"
  proof (cases bands)
    case Nil
    then show ?thesis by simp
  next
    case (Cons a as)
    then show ?thesis by (simp split: option.split)
  qed
  from found none show ?thesis by blast
qed

theorem lookupPSPBand_highest_band_witness:
  "bounds_strictly_increasing spec_example_bands \<and>
   lookupPSPBand spec_example_bands (65 / 10000) =
     Some \<lparr>lower_bound_fraction = 3 / 1000, label = ''reserves likely''\<rparr> \<and>
   lookupPSPBand spec_example_bands (2 / 1000) = None"
proof -
  have inc: "bounds_strictly_increasing spec_example_bands"
    by (rule spec_example_bands_increasing)
  show ?thesis
    using inc
      lookupPSPBand_highest_band [OF inc, of "65 / 10000"
        "\<lparr>lower_bound_fraction = 3 / 1000, label = ''reserves likely''\<rparr>"]
      lookupPSPBand_highest_band [OF inc, of "2 / 1000"]
    by (simp add: spec_example_bands_def)
qed

subsection \<open>The compliance alert\<close>



lemma complianceAlert_warning:
  "7 / 10 \<le> disputeRatio \<Longrightarrow> disputeRatio < 9 / 10 \<Longrightarrow>
   complianceAlert disputeRatio = Some WARNING"
  by (simp add: complianceAlert_def)

lemma complianceAlert_none:
  "disputeRatio < 7 / 10 \<Longrightarrow> complianceAlert disputeRatio = None"
  by (simp add: complianceAlert_def)

subsection \<open>The calculator integration\<close>

text \<open>
  C4, as amended. For a country listed under \<open>domestic_only\<close>, whatever the dispute
  ratio, the regional threshold is looked up all the same. If the region has a row, the
  calculator returns with the exemption reported, the row's current threshold and the
  PSP risk level. If the region has no row and is a name inherited from
  \<open>Object.prototype\<close>, it returns with the exemption reported, an undefined threshold
  and the PSP risk level. If the region has no row and is no such name, it throws a
  TypeError and reports nothing.
\<close>

theorem calculator_exempt_country:
  "userCountry \<in> country_code ` set (domestic_only exemptions) \<Longrightarrow>
   (regions thresholds_json userRegion = Some row \<longrightarrow>
      calculator_integration getPSPRiskLevel thresholds_json exemptions userCountry userRegion
        disputeRatio =
        Returned \<lparr>calc_isDomesticExempt = True,
                  calc_regionThreshold = Some (current_threshold row),
                  calc_pspRisk =
                    getPSPRiskLevel disputeRatio (psp_internal_thresholds thresholds_json)\<rparr>) \<and>
   (regions thresholds_json userRegion = None \<and> userRegion \<in> set object_prototype_keys \<longrightarrow>
      calculator_integration getPSPRiskLevel thresholds_json exemptions userCountry userRegion
        disputeRatio =
        Returned \<lparr>calc_isDomesticExempt = True,
                  calc_regionThreshold = None,
                  calc_pspRisk =
                    getPSPRiskLevel disputeRatio (psp_internal_thresholds thresholds_json)\<rparr>) \<and>
   (regions thresholds_json userRegion = None \<and> userRegion \<notin> set object_prototype_keys \<longrightarrow>
      calculator_integration getPSPRiskLevel thresholds_json exemptions userCountry userRegion
        disputeRatio = Thrown TypeError)"
  by (auto simp add: calculator_integration_def isDomesticExempt_def regionThreshold_def
      js_get_def list_ex_iff)

theorem calculator_exempt_country_witness:
  "''BR'' \<in> country_code ` set (domestic_only sample_exemptions) \<and>
   regions sample_thresholds ''LAC'' = Some \<lparr>current_threshold = 65 / 10000\<rparr> \<and>
   calculator_integration thresholds_reached sample_thresholds
     sample_exemptions ''BR'' ''LAC'' 2 =
     Returned \<lparr>calc_isDomesticExempt = True,
               calc_regionThreshold = Some (65 / 10000),
               calc_pspRisk = [3 / 10, 5 / 10, 7 / 10, 9 / 10]\<rparr> \<and>
   regions sample_thresholds ''constructor'' = None \<and>
   ''constructor'' \<in> set object_prototype_keys \<and>
   calculator_integration thresholds_reached sample_thresholds
     sample_exemptions ''BR'' ''constructor'' 2 =
     Returned \<lparr>calc_isDomesticExempt = True,
               calc_regionThreshold = None,
               calc_pspRisk = [3 / 10, 5 / 10, 7 / 10, 9 / 10]\<rparr> \<and>
   regions sample_thresholds ''EMEA'' = None \<and>
   ''EMEA'' \<notin> set object_prototype_keys \<and>
   calculator_integration thresholds_reached sample_thresholds
     sample_exemptions ''BR'' ''EMEA'' 2 = Thrown TypeError"
proof -
  have country: "''BR'' \<in> country_code ` set (domestic_only sample_exemptions)"
    by (simp add: sample_exemptions_def)
  have row: "regions sample_thresholds ''LAC'' = Some \<lparr>current_threshold = 65 / 10000\<rparr>"
    by (simp add: sample_thresholds_def)
  have inherited: "regions sample_thresholds ''constructor'' = None \<and>
      ''constructor'' \<in> set object_prototype_keys"
    by (simp add: sample_thresholds_def object_prototype_keys_def)
  have missing: "regions sample_thresholds ''EMEA'' = None \<and>
      ''EMEA'' \<notin> set object_prototype_keys"
    by (simp add: sample_thresholds_def object_prototype_keys_def)
  show ?thesis
    using country row inherited missing
      calculator_exempt_country [OF country,
        of sample_thresholds "''LAC''" "\<lparr>current_threshold = 65 / 10000\<rparr>"
           thresholds_reached 2]
      calculator_exempt_country [OF country,
        of sample_thresholds "''constructor''" _ thresholds_reached 2]
      calculator_exempt_country [OF country,
        of sample_thresholds "''EMEA''" _ thresholds_reached 2]
    by (simp add: sample_thresholds_def thresholds_reached_def)
qed

text \<open>
  An exempt country with a region that has no row: the lookup of the regional
  threshold runs and throws, and no exemption is reported.
\<close>

theorem exempt_country_unknown_region_counterexample:
  "isDomesticExempt sample_exemptions ''BR'' \<and>
   calculator_integration thresholds_reached sample_thresholds
     sample_exemptions ''BR'' ''XX'' (2 / 100) = Thrown TypeError"
  by (simp add: calculator_integration_def isDomesticExempt_def sample_exemptions_def
      sample_thresholds_def regionThreshold_def js_get_def object_prototype_keys_def)

text \<open>
  C5, as amended. For a region that is no key of the regions table and no name
  inherited from \<open>Object.prototype\<close>, the lookup substitutes no default threshold: it
  throws a TypeError, and so does the calculator around it.
\<close>

theorem regionThreshold_unknown_region:
  "regions thresholds_json userRegion = None \<Longrightarrow>
   userRegion \<notin> set object_prototype_keys \<Longrightarrow>
   regionThreshold thresholds_json userRegion = Thrown TypeError \<and>
   calculator_integration getPSPRiskLevel thresholds_json exemptions userCountry userRegion
     disputeRatio = Thrown TypeError"
  by (simp add: calculator_integration_def regionThreshold_def js_get_def)

theorem regionThreshold_unknown_region_witness:
  "regions sample_thresholds ''XX'' = None \<and> ''XX'' \<notin> set object_prototype_keys \<and>
   regionThreshold sample_thresholds ''XX'' = Thrown TypeError"
proof -
  have absent: "regions sample_thresholds ''XX'' = None"
    by (simp add: sample_thresholds_def)
  have plain: "''XX'' \<notin> set object_prototype_keys"
    by (simp add: object_prototype_keys_def)
  show ?thesis
    using absent plain regionThreshold_unknown_region [OF absent plain, THEN conjunct1]
    by simp
qed

text \<open>The unknown region is not reported as a result: the lookup throws.\<close>

theorem regionThreshold_throws_counterexample:
  "regionThreshold sample_thresholds ''MARS'' = Thrown TypeError"
  by (simp add: sample_thresholds_def regionThreshold_def js_get_def object_prototype_keys_def)

lemma regionThreshold_inherited:
  "regions thresholds_json userRegion = None \<Longrightarrow> userRegion \<in> set object_prototype_keys \<Longrightarrow>
   regionThreshold thresholds_json userRegion = Returned None"
  by (simp add: regionThreshold_def js_get_def)

subsection \<open>The local penalty\<close>

text \<open>
  C6, as amended. For a currency that has no entry in the rate table the penalty is
  the USD base amount, and no error is raised; it is the USD base amount as well for an
  entry whose amount is missing or zero, and the entry's amount for every other entry.
  So the penalty is always one of these two numbers.
\<close>

theorem localPenalty_fallback:
  "(approximate_rates thresholds_json userCurrency = None \<longrightarrow>
      localPenalty thresholds_json userCurrency = usd_base thresholds_json) \<and>
   (approximate_rates thresholds_json userCurrency = Some rate \<and>
      (amount rate = None \<or> amount rate = Some 0) \<longrightarrow>
      localPenalty thresholds_json userCurrency = usd_base thresholds_json) \<and>
   (approximate_rates thresholds_json userCurrency = Some rate \<and>
      amount rate = Some a \<and> a \<noteq> 0 \<longrightarrow>
      localPenalty thresholds_json userCurrency = a) \<and>
   (localPenalty thresholds_json userCurrency = usd_base thresholds_json \<or>
    (\<exists>listed. approximate_rates thresholds_json userCurrency = Some listed \<and>
       amount listed = Some (localPenalty thresholds_json userCurrency) \<and>
       localPenalty thresholds_json userCurrency \<noteq> 0))"
  by (auto simp add: localPenalty_def js_get_def split: option.splits)

theorem localPenalty_fallback_witness:
  "approximate_rates sample_thresholds ''CHF'' = None \<and>
   localPenalty sample_thresholds ''CHF'' = 8 \<and>
   approximate_rates falsy_amount_thresholds ''GBP'' = Some \<lparr>amount = Some 0\<rparr> \<and>
   localPenalty falsy_amount_thresholds ''GBP'' = 8 \<and>
   approximate_rates falsy_amount_thresholds ''INR'' = Some \<lparr>amount = None\<rparr> \<and>
   localPenalty falsy_amount_thresholds ''INR'' = 8 \<and>
   approximate_rates sample_thresholds ''BRL'' = Some \<lparr>amount = Some 44\<rparr> \<and>
   localPenalty sample_thresholds ''BRL'' = 44"
proof -
  have absent: "approximate_rates sample_thresholds ''CHF'' = None"
    by (simp add: sample_thresholds_def)
  have zero: "approximate_rates falsy_amount_thresholds ''GBP'' = Some \<lparr>amount = Some 0\<rparr>"
    by (simp add: falsy_amount_thresholds_def)
  have no_amount: "approximate_rates falsy_amount_thresholds ''INR'' = Some \<lparr>amount = None\<rparr>"
    by (simp add: falsy_amount_thresholds_def)
  have listed: "approximate_rates sample_thresholds ''BRL'' = Some \<lparr>amount = Some 44\<rparr>"
    by (simp add: sample_thresholds_def)
  show ?thesis
    using absent zero no_amount listed
      localPenalty_fallback [of sample_thresholds "''CHF''"]
      localPenalty_fallback [of falsy_amount_thresholds "''GBP''" "\<lparr>amount = Some 0\<rparr>"]
      localPenalty_fallback [of falsy_amount_thresholds "''INR''" "\<lparr>amount = None\<rparr>"]
      localPenalty_fallback [of sample_thresholds "''BRL''" "\<lparr>amount = Some 44\<rparr>" 44]
    by (simp add: sample_thresholds_def falsy_amount_thresholds_def)
qed

text \<open>No rate for JPY in the sample table, and the penalty is the 8 of the USD base.\<close>

theorem localPenalty_default_counterexample:
  "approximate_rates sample_thresholds ''JPY'' = None \<and>
   localPenalty sample_thresholds ''JPY'' = 8"
  by (simp add: sample_thresholds_def localPenalty_def js_get_def object_prototype_keys_def)

subsection \<open>Loading the configuration\<close>

text \<open>
  C7, as amended. Loading succeeds exactly when both documents were fetched and
  parsed, and then publishes the two documents as they arrived; it fails exactly when
  one of them was rejected. The content of the documents plays no part.
\<close>

theorem load_configs_no_validation:
  "(load_configs fetched_thresholds fetched_exemptions = Returned (t, e) \<longleftrightarrow>
      fetched_thresholds = Returned t \<and> fetched_exemptions = Returned e) \<and>
   ((\<exists>err. load_configs fetched_thresholds fetched_exemptions = Thrown err) \<longleftrightarrow>
      (\<exists>err. fetched_thresholds = Thrown err) \<or> (\<exists>err. fetched_exemptions = Thrown err))"
  by (cases fetched_thresholds; cases fetched_exemptions) simp_all

text \<open>
  A thresholds document with decreasing PSP thresholds and a negative amount is
  published as it is.
\<close>

theorem load_configs_unvalidated_counterexample:
  "load_configs (Returned unvalidated_thresholds) (Returned sample_exemptions) =
     Returned (unvalidated_thresholds, sample_exemptions) \<and>
   \<not> strictly_increasing (psp_internal_thresholds unvalidated_thresholds) \<and>
   approximate_rates unvalidated_thresholds ''EUR'' = Some \<lparr>amount = Some (- 73 / 10)\<rparr>"
  by (simp add: unvalidated_thresholds_def)

subsection \<open>The GuardScore\<close>

lemma guardScore_range:
  "0 \<le> random \<Longrightarrow> random < 1 \<Longrightarrow> 60 \<le> guardScore random \<and> guardScore random \<le> 89"
  unfolding guardScore_def by (simp add: floor_less_iff le_floor_iff)

lemma volume_handler_ignores_action:
  "volume_handler action random = volume_handler action' random"
  by (simp add: volume_handler_def)

text \<open>
  C8. Two presses of the same volume button, with \<open>Math.random()\<close> giving 0 and then
  0.5: the handler replies with the score 60 and then with the score 75.
\<close>

theorem volume_handler_nondeterministic:
  "volume_handler ''vol_10k'' 0 = [AnswerCbQuery, Reply 60] \<and>
   volume_handler ''vol_10k'' (1 / 2) = [AnswerCbQuery, Reply 75]"
  by (simp add: volume_handler_def guardScore_def)

subsection \<open>parsePayload\<close>

lemma parsePayload_falsy: "falsy input \<Longrightarrow> parsePayload input = Map.empty"
  by (simp add: parsePayload_def)

lemma store_part_entry:
  "store_part out part = (case part_entry part of None \<Rightarrow> out | Some (k, v) \<Rightarrow> js_set out k v)"
  by (simp add: store_part_def part_entry_def split: list.split)

lemma foldl_store_part:
  "foldl store_part out parts =
     foldl (\<lambda>m (k, v). js_set m k v) out (List.map_filter part_entry parts)"
  by (induction parts arbitrary: out)
     (auto simp: store_part_entry split: option.split)

lemma js_set_apply:
  "js_set m k' v' k = (if k' = ''__proto__'' then m k else if k = k' then Some v' else m k)"
  by (simp add: js_set_def)

lemma foldl_js_set_lookup:
  "foldl (\<lambda>m (k, v). js_set m k v) out es k =
     (if k = ''__proto__'' then out k
      else (case map_of (rev es) k of None \<Rightarrow> out k | Some v \<Rightarrow> Some v))"
proof (induction es arbitrary: out)
  case Nil
  then show ?case by simp
next
  case (Cons e es)
  obtain k' v' where e: "e = (k', v')" by (cases e)
  have step: "foldl (\<lambda>m (k, v). js_set m k v) out (e # es) k =
      (if k = ''__proto__'' then js_set out k' v' k
       else (case map_of (rev es) k of None \<Rightarrow> js_set out k' v' k | Some v \<Rightarrow> Some v))"
    unfolding e foldl_Cons prod.case by (rule Cons.IH)
  show ?case
    unfolding step by (simp add: e js_set_apply map_add_def split: option.split)
qed

text \<open>
  The payload map of a non-empty string: every key other than \<open>__proto__\<close> has the
  trimmed value of the last part that stores it, and \<open>__proto__\<close> is never a key.
\<close>

lemma parsePayload_lookup:
  "s \<noteq> [] \<Longrightarrow>
   parsePayload (JString s) k =
     (if k = ''__proto__'' then None else map_of (rev (payload_entries s)) k)"
  by (simp add: parsePayload_def falsy_def foldl_store_part foldl_js_set_lookup
      payload_entries_def split: option.split)

lemma parsePayload_guide: "parsePayload (JString ''g:match'') = [''g'' \<mapsto> ''match'']"
  by (simp add: parsePayload_def falsy_def store_part_def trim_def js_whitespace_def
      js_set_def)

text \<open>
  C9. The payload \<open>__proto__:x\<close> has one part, with the non-empty pieces \<open>__proto__\<close>
  and \<open>x\<close>, and parsePayload returns the empty map for it.
\<close>

theorem parsePayload_proto_dropped:
  "payload_entries ''__proto__:x'' = [(''__proto__'', ''x'')] \<and>
   parsePayload (JString ''__proto__:x'') = Map.empty"
  by (simp add: payload_entries_def part_entry_def parsePayload_def
      falsy_def store_part_def trim_def js_whitespace_def js_set_def)

subsection \<open>The webhook handler\<close>

lemma webhook_run:
  "webhook r l e res hu now req s =
     (case try_error r res hu now req (sent s) of
        None \<Rightarrow>
          (Inr (),
           s\<lparr>sent := sent s @
                 [if req_method req = ''POST'' then (200, OkTrue)
                  else (200, ReadyMessage r now)]\<rparr>)
      | Some x \<Rightarrow>
          (case res (sent s) 500 (ErrorBody e) of
             None \<Rightarrow>
               (Inr (), s\<lparr>console := console s @ [(l, x)],
                           sent := sent s @ [(500, ErrorBody e)]\<rparr>)
           | Some y \<Rightarrow> (Inl y, s\<lparr>console := console s @ [(l, x)]\<rparr>)))"
  by (simp add: webhook_def try_catch_def then_prog_def await_def res_status_json_def
      console_error_def try_error_def split: sum.split option.split)

text \<open>
  C10, as amended. Both exported handlers are \<open>webhook\<close> at their own three strings.
  A POST whose update handling succeeded and whose 200 reply was sent gets exactly the
  response 200 with \<open>{ok: true}\<close>, and the handler returns normally; a request with
  any other method whose 200 reply was sent gets exactly the readiness message. An
  error thrown by the update handling, or by the 200 reply, is caught and logged: when
  the 500 reply is sent, it is the one response and the handler returns normally; when
  the 500 reply throws as well, its error propagates to the caller and no response has
  been sent.
\<close>

theorem webhook_one_response:
  "index_handler = webhook ''MerchantGuard Bot Ready!'' ''Bot error:'' ''Bot error'' \<and>
   crisis_handler =
     webhook ''Crisis Fast-Track Bot API Ready!'' ''Crisis bot error:'' ''Crisis bot error'' \<and>
   (req_method req = ''POST'' \<and> hu (req_body req) = Inr () \<and>
      res (sent s) 200 OkTrue = None \<longrightarrow>
      webhook r l e res hu now req s = (Inr (), s\<lparr>sent := sent s @ [(200, OkTrue)]\<rparr>)) \<and>
   (req_method req \<noteq> ''POST'' \<and> res (sent s) 200 (ReadyMessage r now) = None \<longrightarrow>
      webhook r l e res hu now req s =
        (Inr (), s\<lparr>sent := sent s @ [(200, ReadyMessage r now)]\<rparr>)) \<and>
   (req_method req = ''POST'' \<and> hu (req_body req) = Inl x \<longrightarrow>
      try_error r res hu now req (sent s) = Some x) \<and>
   (req_method req = ''POST'' \<and> hu (req_body req) = Inr () \<and>
      res (sent s) 200 OkTrue = Some x \<longrightarrow>
      try_error r res hu now req (sent s) = Some x) \<and>
   (req_method req \<noteq> ''POST'' \<and> res (sent s) 200 (ReadyMessage r now) = Some x \<longrightarrow>
      try_error r res hu now req (sent s) = Some x) \<and>
   (try_error r res hu now req (sent s) = Some x \<and>
      res (sent s) 500 (ErrorBody e) = None \<longrightarrow>
      webhook r l e res hu now req s =
        (Inr (), s\<lparr>console := console s @ [(l, x)],
                    sent := sent s @ [(500, ErrorBody e)]\<rparr>)) \<and>
   (try_error r res hu now req (sent s) = Some x \<and>
      res (sent s) 500 (ErrorBody e) = Some y \<longrightarrow>
      webhook r l e res hu now req s = (Inl y, s\<lparr>console := console s @ [(l, x)]\<rparr>))"
  by (auto simp add: index_handler_def crisis_handler_def webhook_run try_error_def)

theorem webhook_one_response_witness:
  "index_handler reliable_res ok_update ''t'' post_request fresh_state =
     (Inr (), \<lparr>sent = [(200, OkTrue)], console = []\<rparr>) \<and>
   crisis_handler reliable_res ok_update ''t'' get_request fresh_state =
     (Inr (), \<lparr>sent = [(200, ReadyMessage ''Crisis Fast-Track Bot API Ready!'' ''t'')],
               console = []\<rparr>) \<and>
   index_handler reliable_res failing_update ''t'' post_request fresh_state =
     (Inr (), \<lparr>sent = [(500, ErrorBody ''Bot error'')],
               console = [(''Bot error:'', FetchError)]\<rparr>) \<and>
   index_handler broken_res failing_update ''t'' post_request fresh_state =
     (Inl TypeError, \<lparr>sent = [], console = [(''Bot error:'', FetchError)]\<rparr>) \<and>
   index_handler flaky_res ok_update ''t'' post_request fresh_state =
     (Inr (), \<lparr>sent = [(500, ErrorBody ''Bot error'')],
               console = [(''Bot error:'', TypeError)]\<rparr>) \<and>
   crisis_handler flaky_res ok_update ''t'' get_request fresh_state =
     (Inr (), \<lparr>sent = [(500, ErrorBody ''Crisis bot error'')],
               console = [(''Crisis bot error:'', TypeError)]\<rparr>)"
  using
    webhook_one_response [of post_request ok_update reliable_res fresh_state
      "''MerchantGuard Bot Ready!''" "''Bot error:''" "''Bot error''" "''t''"]
    webhook_one_response [of get_request ok_update reliable_res fresh_state
      "''Crisis Fast-Track Bot API Ready!''" "''Crisis bot error:''" "''Crisis bot error''" "''t''"]
    webhook_one_response [of post_request failing_update reliable_res fresh_state
      "''MerchantGuard Bot Ready!''" "''Bot error:''" "''Bot error''" "''t''" FetchError]
    webhook_one_response [of post_request failing_update broken_res fresh_state
      "''MerchantGuard Bot Ready!''" "''Bot error:''" "''Bot error''" "''t''" FetchError
      TypeError]
    webhook_one_response [of post_request ok_update flaky_res fresh_state
      "''MerchantGuard Bot Ready!''" "''Bot error:''" "''Bot error''" "''t''" TypeError]
    webhook_one_response [of get_request ok_update flaky_res fresh_state
      "''Crisis Fast-Track Bot API Ready!''" "''Crisis bot error:''" "''Crisis bot error''" "''t''"
      TypeError]
  by (simp add: flaky_res_def index_handler_def crisis_handler_def try_error_def post_request_def
      get_request_def ok_update_def failing_update_def reliable_res_def broken_res_def
      fresh_state_def)

text \<open>
  A request whose update handling throws, answered through a response object whose
  calls throw: the handler rejects with the error of the 500 reply and no response has
  been sent.
\<close>

theorem webhook_rejects_counterexample:
  "index_handler broken_res failing_update ''2025-01-01T00:00:00.000Z'' post_request
     fresh_state =
     (Inl TypeError, \<lparr>sent = [], console = [(''Bot error:'', FetchError)]\<rparr>)"
  by (simp add: index_handler_def webhook_run try_error_def post_request_def
      failing_update_def broken_res_def fresh_state_def)

end
